theory Spec2Isabelle
  imports Complex_Main
begin

section \<open>Floating-point values\<close>

text \<open>
  The notebook \<^verbatim>\<open>NSESolver.ipynb\<close> computes with Python and numpy floats. A float is
  modelled as a value of \<open>fl\<close>: a real number (\<open>Fin\<close>), one of the two infinities, or
  not-a-number. Arithmetic on finite values is exact: rounding, overflow and underflow of
  the 64-bit format and the sign of zero are not modelled. The operations that have no
  real value follow numpy: a division by zero gives an infinity or \<open>NaN\<close>, the logarithm
  of zero is \<open>MInf\<close>, the logarithm of a negative number and a negative base of \<open>** 1.5\<close>
  are \<open>NaN\<close>, and every comparison with \<open>NaN\<close> is false. On two plain Python floats the
  interpreter instead raises \<^verbatim>\<open>ZeroDivisionError\<close> on a zero divisor and returns a complex
  number for a negative base; in the functions below a divisor is zero only for
  \<open>T = 0\<close> or \<open>rho = 0\<close> and a base is negative only for \<open>T < 0\<close>. The theorems below
  that compute values do so for \<open>T > 0\<close> and \<open>rho > 0\<close>; a theorem stated for all \<open>T\<close>
  and \<open>rho\<close> reads these two cases as numpy does.
\<close>

datatype fl = Fin real | PInf | MInf | NaN

definition signed_inf :: "real \<Rightarrow> fl" where
  "signed_inf s = (if 0 < s then PInf else if s < 0 then MInf else NaN)"

instantiation fl :: "{uminus, plus, minus, times, inverse, ord}"
begin

fun uminus_fl :: "fl \<Rightarrow> fl" where
  "uminus_fl (Fin x) = Fin (- x)"
| "uminus_fl PInf = MInf"
| "uminus_fl MInf = PInf"
| "uminus_fl NaN = NaN"

fun plus_fl :: "fl \<Rightarrow> fl \<Rightarrow> fl" where
  "plus_fl (Fin x) (Fin y) = Fin (x + y)"
| "plus_fl NaN _ = NaN"
| "plus_fl _ NaN = NaN"
| "plus_fl PInf MInf = NaN"
| "plus_fl MInf PInf = NaN"
| "plus_fl PInf _ = PInf"
| "plus_fl _ PInf = PInf"
| "plus_fl MInf _ = MInf"
| "plus_fl _ MInf = MInf"

definition minus_fl :: "fl \<Rightarrow> fl \<Rightarrow> fl" where
  "minus_fl a b = a + (- b)"

fun times_fl :: "fl \<Rightarrow> fl \<Rightarrow> fl" where
  "times_fl (Fin x) (Fin y) = Fin (x * y)"
| "times_fl NaN _ = NaN"
| "times_fl _ NaN = NaN"
| "times_fl PInf (Fin y) = signed_inf y"
| "times_fl (Fin x) PInf = signed_inf x"
| "times_fl MInf (Fin y) = signed_inf (- y)"
| "times_fl (Fin x) MInf = signed_inf (- x)"
| "times_fl PInf PInf = PInf"
| "times_fl MInf MInf = PInf"
| "times_fl PInf MInf = MInf"
| "times_fl MInf PInf = MInf"

fun divide_fl :: "fl \<Rightarrow> fl \<Rightarrow> fl" where
  "divide_fl (Fin x) (Fin y) = (if y = 0 then signed_inf x else Fin (x / y))"
| "divide_fl NaN _ = NaN"
| "divide_fl _ NaN = NaN"
| "divide_fl (Fin x) PInf = Fin 0"
| "divide_fl (Fin x) MInf = Fin 0"
| "divide_fl PInf (Fin y) = (if 0 \<le> y then PInf else MInf)"
| "divide_fl MInf (Fin y) = (if 0 \<le> y then MInf else PInf)"
| "divide_fl PInf PInf = NaN"
| "divide_fl PInf MInf = NaN"
| "divide_fl MInf PInf = NaN"
| "divide_fl MInf MInf = NaN"

definition inverse_fl :: "fl \<Rightarrow> fl" where
  "inverse_fl a = divide (Fin 1) a"

fun less_fl :: "fl \<Rightarrow> fl \<Rightarrow> bool" where
  "less_fl (Fin x) (Fin y) = (x < y)"
| "less_fl NaN _ = False"
| "less_fl _ NaN = False"
| "less_fl _ MInf = False"
| "less_fl PInf _ = False"
| "less_fl MInf _ = True"
| "less_fl _ PInf = True"

fun less_eq_fl :: "fl \<Rightarrow> fl \<Rightarrow> bool" where
  "less_eq_fl (Fin x) (Fin y) = (x \<le> y)"
| "less_eq_fl NaN _ = False"
| "less_eq_fl _ NaN = False"
| "less_eq_fl MInf _ = True"
| "less_eq_fl _ PInf = True"
| "less_eq_fl _ MInf = False"
| "less_eq_fl PInf _ = False"

instance ..

end

text \<open>\<^verbatim>\<open>np.exp\<close>, \<^verbatim>\<open>np.log\<close>, the power \<^verbatim>\<open>x ** 1.5\<close> and Python's built-in \<^verbatim>\<open>min(a, b)\<close>
  (which returns \<open>b\<close> only when \<open>b < a\<close>).\<close>

fun np_exp :: "fl \<Rightarrow> fl" where
  "np_exp (Fin x) = Fin (exp x)"
| "np_exp PInf = PInf"
| "np_exp MInf = Fin 0"
| "np_exp NaN = NaN"

fun np_log :: "fl \<Rightarrow> fl" where
  "np_log (Fin x) = (if 0 < x then Fin (ln x) else if x = 0 then MInf else NaN)"
| "np_log PInf = PInf"
| "np_log MInf = NaN"
| "np_log NaN = NaN"

fun pow_1_5 :: "fl \<Rightarrow> fl" where
  "pow_1_5 (Fin x) = (if 0 \<le> x then Fin (x powr (3 / 2)) else NaN)"
| "pow_1_5 PInf = PInf"
| "pow_1_5 MInf = PInf"
| "pow_1_5 NaN = NaN"

definition py_min :: "fl \<Rightarrow> fl \<Rightarrow> fl" where
  "py_min a b = (if b < a then b else a)"


section \<open>Constants and conversion functions\<close>

text \<open>The constants of the notebook: \<^verbatim>\<open>mamuc2 = 931.494103\<close>,
  \<^verbatim>\<open>mamu_grams = 1.66053907e-24\<close>, \<^verbatim>\<open>Navo = 6.02214076e23\<close>, \<^verbatim>\<open>hc = 1.24e-10\<close>.\<close>

definition mamuc2 :: fl where
  "mamuc2 = Fin 931.494103"

definition mamu_grams :: fl where
  "mamu_grams = Fin (1.66053907 / 10 ^ 24)"

definition Navo :: fl where
  "Navo = Fin (6.02214076 * 10 ^ 23)"

definition hc :: fl where
  "hc = Fin (1.24 / 10 ^ 10)"

definition np_pi :: fl where
  "np_pi = Fin pi"

text \<open>
  \<^verbatim>\<open>def X(xmu,xA,xrho,xT):
      nQ = (2*np.pi*xT*xA*mamuc2/hc**2)**(1.5)
      return xA/(xrho*Navo)*nQ*np.exp(xmu/xT)\<close>
  The square \<^verbatim>\<open>hc**2\<close> is written \<open>hc * hc\<close>.
\<close>

definition X :: "fl \<Rightarrow> fl \<Rightarrow> fl \<Rightarrow> fl \<Rightarrow> fl" where
  "X xmu xA xrho xT =
     (let nQ = pow_1_5 (Fin 2 * np_pi * xT * xA * mamuc2 / (hc * hc))
      in xA / (xrho * Navo) * nQ * np_exp (xmu / xT))"

text \<open>
  \<^verbatim>\<open>def mualpha(mun,mup):
      return 2*mun+2*mup+28.3\<close>
\<close>

definition mualpha :: "fl \<Rightarrow> fl \<Rightarrow> fl" where
  "mualpha mun mup = Fin 2 * mun + Fin 2 * mup + Fin 28.3"

text \<open>
  \<^verbatim>\<open>def mu(T,n,A):
      nQ = (2*np.pi*T*A*mamuc2/hc**2)**(1.5)
      return T*np.log(n/nQ)\<close>
\<close>

definition mu :: "fl \<Rightarrow> fl \<Rightarrow> fl \<Rightarrow> fl" where
  "mu T n A =
     (let nQ = pow_1_5 (Fin 2 * np_pi * T * A * mamuc2 / (hc * hc))
      in T * np_log (n / nQ))"

section \<open>The solver \<^verbatim>\<open>get_Xs\<close>\<close>

datatype py_error = IndexError | ValueError | ZeroDivisionError

text \<open>
  \<^verbatim>\<open>get_Xs\<close> has no \<^verbatim>\<open>raise\<close>. What it and \<^verbatim>\<open>LS\<close> can raise by themselves is
  \<^verbatim>\<open>IndexError\<close>, from indexing a sequence; the other errors are those a root-finder may
  raise, which \<^verbatim>\<open>get_Xs\<close> lets through.
\<close>

text \<open>
  The residual function \<^verbatim>\<open>LS\<close>, local to \<^verbatim>\<open>get_Xs\<close>, with the variables \<open>rho\<close>, \<open>T\<close>
  and \<open>yp\<close> it closes over as parameters. Reading \<^verbatim>\<open>x[0]\<close>, \<^verbatim>\<open>x[1]\<close>, \<^verbatim>\<open>x[2]\<close> of a
  shorter sequence raises \<^verbatim>\<open>IndexError\<close>.
\<close>

definition LS :: "fl \<Rightarrow> fl \<Rightarrow> fl \<Rightarrow> fl list \<Rightarrow> py_error + fl list" where
  "LS rho T yp x =
     (if length x < 3 then Inl IndexError
      else Inr [Fin 1 - X (x ! 0) (Fin 1) rho T - X (x ! 1) (Fin 1) rho T - X (x ! 2) (Fin 4) rho T,
                yp - X (x ! 0) (Fin 1) rho T - X (x ! 2) (Fin 4) rho T / Fin 2,
                x ! 2 - mualpha (x ! 1) (x ! 0)])"

text \<open>
  The five local variables of the guess phase of \<^verbatim>\<open>get_Xs\<close>. \<open>baseline_guess\<close> is the
  assignment before the \<^verbatim>\<open>if\<close> (all nucleons free), \<open>alpha_guess\<close> the body of
  \<^verbatim>\<open>if mualphaguess>munguess:\<close> (its \<^verbatim>\<open>if yp<0.5: ... elif yp>=0.5: ...\<close>, which leaves
  the variables as they are when neither test holds), and \<open>initial_guess\<close> the whole
  phase.
\<close>

record guess =
  npguess :: fl
  nnguess :: fl
  mupguess :: fl
  munguess :: fl
  mualphaguess :: fl

definition baseline_guess :: "fl \<Rightarrow> fl \<Rightarrow> fl \<Rightarrow> guess" where
  "baseline_guess rho T yp =
     (let np0 = yp * rho / mamu_grams;
          nn0 = (Fin 1 - yp) * rho / mamu_grams;
          mup0 = mu T np0 (Fin 1);
          mun0 = mu T nn0 (Fin 1)
      in \<lparr>npguess = np0, nnguess = nn0, mupguess = mup0, munguess = mun0,
          mualphaguess = mualpha mun0 mup0\<rparr>)"

definition alpha_guess :: "fl \<Rightarrow> fl \<Rightarrow> fl \<Rightarrow> guess \<Rightarrow> guess" where
  "alpha_guess rho T yp g =
     (if yp < Fin 0.5 then
        (let np1 = py_min (Fin 0.01) yp * rho / mamu_grams;
             nn1 = Fin 2 * (Fin 0.5 - yp) * rho / mamu_grams;
             mup1 = mu T np1 (Fin 1);
             mun1 = mu T nn1 (Fin 1)
         in \<lparr>npguess = np1, nnguess = nn1, mupguess = mup1, munguess = mun1,
             mualphaguess = mualpha mun1 mup1\<rparr>)
      else if Fin 0.5 \<le> yp then
        (let nn1 = py_min (Fin 0.01) (Fin 1 - yp) * rho / mamu_grams;
             np1 = Fin 2 * (yp - Fin 0.499) * rho / mamu_grams;
             mup1 = mu T np1 (Fin 1);
             mun1 = mu T nn1 (Fin 1)
         in \<lparr>npguess = np1, nnguess = nn1, mupguess = mup1, munguess = mun1,
             mualphaguess = mualpha mun1 mup1\<rparr>)
      else g)"

definition initial_guess :: "fl \<Rightarrow> fl \<Rightarrow> fl \<Rightarrow> guess" where
  "initial_guess rho T yp =
     (let g = baseline_guess rho T yp
      in if munguess g < mualphaguess g then alpha_guess rho T yp g else g)"

text \<open>
  \<^verbatim>\<open>scipy.optimize.fsolve\<close> is not code of the notebook: it is a parameter of the model.
  It is called with the residual function and the starting point and returns a sequence
  of floats, or raises. \<^verbatim>\<open>get_Xs\<close> reads the first three entries of what it returns.
\<close>

type_synonym solver = "(fl list \<Rightarrow> py_error + fl list) \<Rightarrow> fl list \<Rightarrow> py_error + fl list"

definition get_Xs :: "solver \<Rightarrow> fl \<Rightarrow> fl \<Rightarrow> fl \<Rightarrow> py_error + fl \<times> fl \<times> fl" where
  "get_Xs fsolve rho T yp =
     (let g = initial_guess rho T yp
      in case fsolve (LS rho T yp) [mupguess g, munguess g, mualphaguess g] of
           Inl e \<Rightarrow> Inl e
         | Inr values \<Rightarrow>
             if length values < 3 then Inl IndexError
             else Inr (X (values ! 0) (Fin 1) rho T,
                       X (values ! 1) (Fin 1) rho T,
                       X (values ! 2) (Fin 4) rho T))"

section \<open>Reference formulas and stand-ins for the root-finder\<close>

text \<open>
  The two conversion formulas in the words of the specification (section 4.1), over the
  reals: \<open>nQ = (2 pi T A m_amu c^2 / (hc)^2)^1.5\<close> and
  \<open>X = (A / (rho N_A)) nQ(T, A) exp(mu / T)\<close>, with the constants of its section 6.
  The functions \<open>X\<close> and \<open>mu\<close> above are compared with them, and results on finite
  values are stated with them.
\<close>

definition quantumConcentration :: "real \<Rightarrow> real \<Rightarrow> real" where
  "quantumConcentration T A = (2 * pi * T * A * 931.494103 / (1.24 / 10 ^ 10)\<^sup>2) powr 1.5"

definition massFractionFromPotential :: "real \<Rightarrow> real \<Rightarrow> real \<Rightarrow> real \<Rightarrow> real" where
  "massFractionFromPotential m A rho T =
     A / (rho * (6.02214076 * 10 ^ 23)) * quantumConcentration T A * exp (m / T)"

text \<open>
  A root-finder call that makes no progress: \<^verbatim>\<open>fsolve\<close> returns the last iterate of an
  unsuccessful call, here the starting point itself. It stands for \<^verbatim>\<open>fsolve\<close> in concrete
  runs of \<open>get_Xs\<close>; \<open>answers v\<close> is a call that returns \<open>v\<close>.
\<close>

definition unconverged :: solver where
  "unconverged f x0 = Inr x0"

definition answers :: "fl list \<Rightarrow> solver" where
  "answers v f x0 = Inr v"

text \<open>Properties of a result of \<open>get_Xs\<close>: the three mass fractions are finite and sum
  to one within \<open>1e-6\<close>; they are finite and positive; the result with its first two
  components exchanged.\<close>

fun conserved :: "py_error + fl \<times> fl \<times> fl \<Rightarrow> bool" where
  "conserved (Inr (Fin xp, Fin xn, Fin xa)) = (\<bar>xp + xn + xa - 1\<bar> \<le> 1 / 10 ^ 6)"
| "conserved _ = False"




section \<open>Arithmetic on finite values\<close>

lemma minus_Fin [simp]: "Fin x - Fin y = Fin (x - y)"
  by (simp add: minus_fl_def)

lemmas consts_defs = mamuc2_def mamu_grams_def Navo_def hc_def np_pi_def

lemma quantumConcentration_pos: "0 < T \<Longrightarrow> 0 < A \<Longrightarrow> 0 < quantumConcentration T A"
  by (simp add: quantumConcentration_def)

lemma nQ_Fin:
  assumes "0 < T" "0 < A"
  shows "pow_1_5 (Fin 2 * np_pi * Fin T * Fin A * mamuc2 / (hc * hc))
       = Fin (quantumConcentration T A)"
  using assms by (simp add: consts_defs power2_eq_square quantumConcentration_def)

lemma X_Fin:
  assumes "0 < A" "0 < rho" "0 < T"
  shows "X (Fin m) (Fin A) (Fin rho) (Fin T) = Fin (massFractionFromPotential m A rho T)"
  using assms by (simp add: X_def nQ_Fin Navo_def massFractionFromPotential_def)


lemma mu_Fin:
  assumes "0 < T" "0 < A" "0 < n"
  shows "mu (Fin T) (Fin n) (Fin A) = Fin (T * ln (n / quantumConcentration T A))"
  using assms quantumConcentration_pos[of T A] by (simp add: mu_def nQ_Fin)

lemma mualpha_Fin: "mualpha (Fin a) (Fin b) = Fin (2 * a + 2 * b + 28.3)"
  by (simp add: mualpha_def)


lemma massFraction_of_mu:
  assumes "0 < T" "0 < A" "0 < rho" "0 < n"
  shows "X (mu (Fin T) (Fin n) (Fin A)) (Fin A) (Fin rho) (Fin T)
       = Fin (A * n / (rho * (6.02214076 * 10 ^ 23)))"
proof -
  have q: "0 < quantumConcentration T A"
    using assms by (simp add: quantumConcentration_pos)
  have "exp (T * ln (n / quantumConcentration T A) / T) = n / quantumConcentration T A"
    using assms q by simp
  then show ?thesis
    using assms q by (simp add: mu_Fin X_Fin massFractionFromPotential_def)
qed

lemma minus_eq_FinD:
  assumes "a - b = Fin r"
  obtains x y where "a = Fin x" "b = Fin y" "r = x - y"
  using assms by (cases a; cases b) (auto simp: minus_fl_def)



lemma LS_InrD:
  assumes "LS rho T yp v = Inr res"
  obtains a b c rest where "v = a # b # c # rest"
    and "res = [Fin 1 - X a (Fin 1) rho T - X b (Fin 1) rho T - X c (Fin 4) rho T,
                yp - X a (Fin 1) rho T - X c (Fin 4) rho T / Fin 2,
                c - mualpha b a]"
proof -
  from assms have len: "\<not> length v < 3"
    by (auto simp: LS_def split: if_splits)
  then obtain a b c rest where v: "v = a # b # c # rest"
    by (cases v; simp; cases "tl v"; simp; cases "tl (tl v)"; simp)
  with assms that show thesis
    by (auto simp: LS_def)
qed

section \<open>The guess phase and the solver call\<close>

lemma get_Xs_Inr:
  assumes "fsolve (LS rho T yp)
             [mupguess (initial_guess rho T yp), munguess (initial_guess rho T yp),
              mualphaguess (initial_guess rho T yp)] = Inr (a # b # c # rest)"
  shows "get_Xs fsolve rho T yp = Inr (X a (Fin 1) rho T, X b (Fin 1) rho T, X c (Fin 4) rho T)"
  using assms by (simp add: get_Xs_def Let_def)

lemma py_min_Fin: "py_min (Fin a) (Fin b) = Fin (min a b)"
  by (simp add: py_min_def min_def)

lemma baseline_Fin:
  "baseline_guess (Fin rho) T (Fin y) =
     \<lparr>npguess = Fin (y * rho / (1.66053907 / 10 ^ 24)),
      nnguess = Fin ((1 - y) * rho / (1.66053907 / 10 ^ 24)),
      mupguess = mu T (Fin (y * rho / (1.66053907 / 10 ^ 24))) (Fin 1),
      munguess = mu T (Fin ((1 - y) * rho / (1.66053907 / 10 ^ 24))) (Fin 1),
      mualphaguess = mualpha (mu T (Fin ((1 - y) * rho / (1.66053907 / 10 ^ 24))) (Fin 1))
                             (mu T (Fin (y * rho / (1.66053907 / 10 ^ 24))) (Fin 1))\<rparr>"
  by (simp add: baseline_guess_def mamu_grams_def Let_def)

lemma alpha_lt_Fin:
  assumes "y < 0.5"
  shows "alpha_guess (Fin rho) T (Fin y) g =
     \<lparr>npguess = Fin (min 0.01 y * rho / (1.66053907 / 10 ^ 24)),
      nnguess = Fin (2 * (0.5 - y) * rho / (1.66053907 / 10 ^ 24)),
      mupguess = mu T (Fin (min 0.01 y * rho / (1.66053907 / 10 ^ 24))) (Fin 1),
      munguess = mu T (Fin (2 * (0.5 - y) * rho / (1.66053907 / 10 ^ 24))) (Fin 1),
      mualphaguess = mualpha (mu T (Fin (2 * (0.5 - y) * rho / (1.66053907 / 10 ^ 24))) (Fin 1))
                             (mu T (Fin (min 0.01 y * rho / (1.66053907 / 10 ^ 24))) (Fin 1))\<rparr>"
  using assms by (simp add: alpha_guess_def mamu_grams_def Let_def py_min_Fin)

lemma alpha_ge_Fin:
  assumes "\<not> y < 0.5"
  shows "alpha_guess (Fin rho) T (Fin y) g =
     \<lparr>npguess = Fin (2 * (y - 0.499) * rho / (1.66053907 / 10 ^ 24)),
      nnguess = Fin (min 0.01 (1 - y) * rho / (1.66053907 / 10 ^ 24)),
      mupguess = mu T (Fin (2 * (y - 0.499) * rho / (1.66053907 / 10 ^ 24))) (Fin 1),
      munguess = mu T (Fin (min 0.01 (1 - y) * rho / (1.66053907 / 10 ^ 24))) (Fin 1),
      mualphaguess = mualpha (mu T (Fin (min 0.01 (1 - y) * rho / (1.66053907 / 10 ^ 24))) (Fin 1))
                             (mu T (Fin (2 * (y - 0.499) * rho / (1.66053907 / 10 ^ 24))) (Fin 1))\<rparr>"
  using assms by (simp add: alpha_guess_def mamu_grams_def Let_def py_min_Fin)




lemma LS_triple:
  "LS rho T yp [a, b, c] =
     Inr [Fin 1 - X a (Fin 1) rho T - X b (Fin 1) rho T - X c (Fin 4) rho T,
          yp - X a (Fin 1) rho T - X c (Fin 4) rho T / Fin 2,
          c - mualpha b a]"
  by (simp add: LS_def)




lemma get_Xs_unconverged:
  "get_Xs unconverged rho T yp =
     Inr (X (mupguess (initial_guess rho T yp)) (Fin 1) rho T,
          X (munguess (initial_guess rho T yp)) (Fin 1) rho T,
          X (mualphaguess (initial_guess rho T yp)) (Fin 4) rho T)"
  by (simp add: get_Xs_def unconverged_def Let_def)




lemma mualpha_exceeds:
  assumes T: "0 < T"
    and p: "quantumConcentration T 1 \<le> p"
    and n: "quantumConcentration T 1 \<le> n"
  shows "mu (Fin T) (Fin n) (Fin 1)
       < mualpha (mu (Fin T) (Fin n) (Fin 1)) (mu (Fin T) (Fin p) (Fin 1))"
proof -
  have q: "0 < quantumConcentration T 1"
    using T by (simp add: quantumConcentration_pos)
  have p0: "0 < p" and n0: "0 < n"
    using q p n by linarith+
  have "0 \<le> ln (p / quantumConcentration T 1)"
    using q p by (intro ln_ge_zero) (simp add: le_divide_eq)
  then have lp: "0 \<le> T * ln (p / quantumConcentration T 1)"
    using T by simp
  have "0 \<le> ln (n / quantumConcentration T 1)"
    using q n by (intro ln_ge_zero) (simp add: le_divide_eq)
  then have ln: "0 \<le> T * ln (n / quantumConcentration T 1)"
    using T by simp
  show ?thesis
    unfolding mu_Fin [OF T zero_less_one p0] mu_Fin [OF T zero_less_one n0] mualpha_Fin
    using lp ln by simp
qed

lemma alpha_branch_taken:
  assumes T: "0 < T"
    and p: "quantumConcentration T 1 \<le> y * rho / (1.66053907 / 10 ^ 24)"
    and n: "quantumConcentration T 1 \<le> (1 - y) * rho / (1.66053907 / 10 ^ 24)"
  shows "initial_guess (Fin rho) (Fin T) (Fin y)
       = alpha_guess (Fin rho) (Fin T) (Fin y) (baseline_guess (Fin rho) (Fin T) (Fin y))"
  unfolding initial_guess_def Let_def baseline_Fin
  using mualpha_exceeds [OF T p n] by (simp only: guess.simps if_True)


section \<open>Numeric bounds and the relation between the three fractions\<close>

lemma ten_powr: "(10 ^ 24 :: real) powr (3 / 2) = 10 ^ 36" "(10 ^ 22 :: real) powr (3 / 2) = 10 ^ 33"
proof -
  have "(10 ^ 24 :: real) powr (3 / 2) = (10 powr 24) powr (3 / 2)"
    by simp
  also have "\<dots> = 10 powr 36"
    by (simp only: powr_powr) simp
  finally show "(10 ^ 24 :: real) powr (3 / 2) = 10 ^ 36"
    by simp
  have "(10 ^ 22 :: real) powr (3 / 2) = (10 powr 22) powr (3 / 2)"
    by simp
  also have "\<dots> = 10 powr 33"
    by (simp only: powr_powr) simp
  finally show "(10 ^ 22 :: real) powr (3 / 2) = 10 ^ 33"
    by simp
qed

lemma qC_1_1_le: "quantumConcentration 1 1 \<le> 10 ^ 36"
proof -
  have "2 * pi * 1 * 1 * 931.494103 / (1.24 / 10 ^ 10)\<^sup>2 \<le> (10 ^ 24 :: real)"
    using pi_less_4 by (simp add: field_simps)
  then have "(2 * pi * 1 * 1 * 931.494103 / (1.24 / 10 ^ 10)\<^sup>2) powr (3 / 2)
      \<le> (10 ^ 24 :: real) powr (3 / 2)"
    by (intro powr_mono2) simp_all
  moreover have "(1.5::real) = 3 / 2"
    by simp
  ultimately have "quantumConcentration 1 1 \<le> (10 ^ 24 :: real) powr (3 / 2)"
    unfolding quantumConcentration_def by (simp only:)
  then show ?thesis
    by (simp only: ten_powr)
qed

lemma qC_1_4_ge: "10 ^ 33 \<le> quantumConcentration 1 4"
proof -
  have "(10 ^ 22 :: real) \<le> 2 * pi * 1 * 4 * 931.494103 / (1.24 / 10 ^ 10)\<^sup>2"
    using pi_ge_two by (simp add: field_simps)
  then have "(10 ^ 22 :: real) powr (3 / 2)
      \<le> (2 * pi * 1 * 4 * 931.494103 / (1.24 / 10 ^ 10)\<^sup>2) powr (3 / 2)"
    by (intro powr_mono2) simp_all
  moreover have "(1.5::real) = 3 / 2"
    by simp
  ultimately have "(10 ^ 22 :: real) powr (3 / 2) \<le> quantumConcentration 1 4"
    unfolding quantumConcentration_def by (simp only:)
  then show ?thesis
    by (simp only: ten_powr)
qed

lemma exp_28_ge: "(2 ^ 28 :: real) \<le> exp 28"
proof -
  have "(2::real) \<le> exp 1"
    using exp_ge_add_one_self [of "1::real"] by simp
  then have "(2::real) ^ 28 \<le> exp 1 ^ 28"
    by (intro power_mono) simp_all
  also have "\<dots> = exp (of_nat 28 * (1::real))"
    by (simp only: exp_of_nat_mult)
  finally show ?thesis
    by simp
qed

lemma alpha_fraction_large:
  assumes p: "quantumConcentration 1 1 \<le> p" and n: "quantumConcentration 1 1 \<le> n"
  obtains xa where
    "X (mualpha (mu (Fin 1) (Fin n) (Fin 1)) (mu (Fin 1) (Fin p) (Fin 1)))
       (Fin 4) (Fin (10 ^ 15)) (Fin 1) = Fin xa"
    and "2 < xa"
proof -
  have q: "0 < quantumConcentration 1 1"
    by (simp add: quantumConcentration_pos)
  have p0: "0 < p" and n0: "0 < n"
    using q p n by linarith+
  have lp: "0 \<le> ln (p / quantumConcentration 1 1)"
    using q p by (intro ln_ge_zero) (simp add: le_divide_eq)
  have ln: "0 \<le> ln (n / quantumConcentration 1 1)"
    using q n by (intro ln_ge_zero) (simp add: le_divide_eq)
  define m where "m = 2 * (1 * ln (n / quantumConcentration 1 1))
                    + 2 * (1 * ln (p / quantumConcentration 1 1)) + 28.3"
  have "28 \<le> m"
    using lp ln by (simp add: m_def)
  then have "exp 28 \<le> exp (m / 1)"
    by simp
  then have e: "2 ^ 28 \<le> exp (m / 1)"
    using exp_28_ge by linarith
  have "4 / (10 ^ 15 * (6.02214076 * 10 ^ 23)) * 10 ^ 33 * 2 ^ 28
      \<le> 4 / (10 ^ 15 * (6.02214076 * 10 ^ 23)) * quantumConcentration 1 4 * exp (m / 1)"
    using qC_1_4_ge e by (intro mult_mono) simp_all
  moreover have "(2::real) < 4 / (10 ^ 15 * (6.02214076 * 10 ^ 23)) * 10 ^ 33 * 2 ^ 28"
    by simp
  ultimately have big: "2 < massFractionFromPotential m 4 (10 ^ 15) 1"
    unfolding massFractionFromPotential_def by linarith
  have "X (mualpha (mu (Fin 1) (Fin n) (Fin 1)) (mu (Fin 1) (Fin p) (Fin 1)))
          (Fin 4) (Fin (10 ^ 15)) (Fin 1) = Fin (massFractionFromPotential m 4 (10 ^ 15) 1)"
    unfolding mu_Fin [OF zero_less_one zero_less_one p0] mu_Fin [OF zero_less_one zero_less_one n0]
      mualpha_Fin m_def [symmetric]
    by (intro X_Fin) simp_all
  with big that show thesis
    by blast
qed






section \<open>The residual system (C1)\<close>

text \<open>
  C1. For all \<open>rho\<close>, \<open>T\<close>, \<open>yp\<close> and every potential triple, the residual function
  \<open>LS\<close> evaluated at \<open>[mu_p, mu_n, mu_alpha]\<close> is the vector of the mass constraint
  \<open>1 - X(mu_p, 1) - X(mu_n, 1) - X(mu_alpha, 4)\<close>, the charge constraint
  \<open>yp - X(mu_p, 1) - X(mu_alpha, 4) / 2\<close> and the alpha relation
  \<open>mu_alpha - (2 mu_n + 2 mu_p + 28.3)\<close>, in this order; and it is this function that
  \<open>get_Xs\<close> hands to the root-finder, with the starting point ordered proton, neutron,
  alpha and the answer read back in the same order.
\<close>

theorem residual_vector:
  "LS rho T yp [mu_p, mu_n, mu_alpha] =
     Inr [Fin 1 - X mu_p (Fin 1) rho T - X mu_n (Fin 1) rho T - X mu_alpha (Fin 4) rho T,
          yp - X mu_p (Fin 1) rho T - X mu_alpha (Fin 4) rho T / Fin 2,
          mu_alpha - (Fin 2 * mu_n + Fin 2 * mu_p + Fin 28.3)]
   \<and> get_Xs fsolve rho T yp =
       (case fsolve (LS rho T yp)
               [mupguess (initial_guess rho T yp), munguess (initial_guess rho T yp),
                mualphaguess (initial_guess rho T yp)] of
          Inl e \<Rightarrow> Inl e
        | Inr v \<Rightarrow> if length v < 3 then Inl IndexError
                  else Inr (X (v ! 0) (Fin 1) rho T, X (v ! 1) (Fin 1) rho T,
                            X (v ! 2) (Fin 4) rho T))"
  by (simp add: LS_def mualpha_def get_Xs_def Let_def)

section \<open>The conversion functions (C2, C7, C8)\<close>

text \<open>
  C2. For finite \<open>mu\<close> and positive \<open>A\<close>, \<open>rho\<close>, \<open>T\<close>, the function \<open>X\<close> returns
  \<open>(A / (rho N_A)) nQ(T, A) exp(mu / T)\<close> with
  \<open>nQ(T, A) = (2 pi T A m_amu c^2 / (hc)^2)^1.5\<close> and the constants
  \<open>m_amu c^2 = 931.494103\<close>, \<open>N_A = 6.02214076e23\<close>, \<open>hc = 1.24e-10\<close>.
\<close>

theorem X_formula:
  assumes "0 < A" "0 < rho" "0 < T"
  shows "X (Fin m) (Fin A) (Fin rho) (Fin T)
       = Fin (A / (rho * (6.02214076 * 10 ^ 23))
              * (2 * pi * T * A * 931.494103 / (1.24 / 10 ^ 10)\<^sup>2) powr 1.5
              * exp (m / T))"
  using assms by (simp add: X_Fin massFractionFromPotential_def quantumConcentration_def)

theorem X_formula_witness:
  "(0::real) < 4 \<and> (0::real) < 10 ^ 11 \<and> (0::real) < 3
   \<and> X (Fin (- 10)) (Fin 4) (Fin (10 ^ 11)) (Fin 3)
       = Fin (4 / (10 ^ 11 * (6.02214076 * 10 ^ 23))
              * (2 * pi * 3 * 4 * 931.494103 / (1.24 / 10 ^ 10)\<^sup>2) powr 1.5
              * exp (- 10 / 3))"
  using X_formula [of 4 "10 ^ 11" 3 "- 10"] by simp





section \<open>Guess construction (C3, C9)\<close>

text \<open>
  C3. The guess handed to the root-finder, for finite \<open>rho\<close> and \<open>yp\<close>: the baseline
  guess (\<open>n_p = yp rho / m_amu\<close>, \<open>n_n = (1 - yp) rho / m_amu\<close>) is replaced exactly when
  its \<open>mu_alpha\<close> exceeds its \<open>mu_n\<close>, and then by the guess computed once from
  \<open>n_p = min(0.01, yp) rho / m_amu\<close>, \<open>n_n = 2 (0.5 - yp) rho / m_amu\<close> if \<open>yp < 0.5\<close>, and
  from \<open>n_n = min(0.01, 1 - yp) rho / m_amu\<close>, \<open>n_p = 2 (yp - 0.499) rho / m_amu\<close>
  otherwise, with \<open>mu_p\<close>, \<open>mu_n\<close> from \<open>mu\<close> and \<open>mu_alpha\<close> from \<open>mualpha\<close>.
\<close>

theorem guess_selection:
  "initial_guess (Fin rho) T (Fin y) =
     (let m = 1.66053907 / 10 ^ 24;
          mup0 = mu T (Fin (y * rho / m)) (Fin 1);
          mun0 = mu T (Fin ((1 - y) * rho / m)) (Fin 1);
          np1 = (if y < 0.5 then min 0.01 y * rho / m else 2 * (y - 0.499) * rho / m);
          nn1 = (if y < 0.5 then 2 * (0.5 - y) * rho / m else min 0.01 (1 - y) * rho / m);
          mup1 = mu T (Fin np1) (Fin 1);
          mun1 = mu T (Fin nn1) (Fin 1)
      in if mun0 < mualpha mun0 mup0
         then \<lparr>npguess = Fin np1, nnguess = Fin nn1, mupguess = mup1, munguess = mun1,
               mualphaguess = mualpha mun1 mup1\<rparr>
         else \<lparr>npguess = Fin (y * rho / m), nnguess = Fin ((1 - y) * rho / m),
               mupguess = mup0, munguess = mun0, mualphaguess = mualpha mun0 mup0\<rparr>)"
proof (cases "y < 0.5")
  case True
  then show ?thesis
    by (simp add: initial_guess_def baseline_Fin alpha_lt_Fin Let_def)
next
  case False
  then show ?thesis
    by (simp add: initial_guess_def baseline_Fin alpha_ge_Fin Let_def)
qed



section \<open>The returned mass fractions (C10, C4)\<close>



text \<open>
  C4, as stated: for every valid input the returned fractions sum to one within \<open>1e-6\<close>.
  \<open>get_Xs\<close> returns the fractions of whatever the root-finder returns and never looks at
  the residual. At \<open>rho = 1e15\<close>, \<open>T = 1\<close>, \<open>yp = 0.25\<close> a call that hands back its
  starting point yields an alpha fraction above 2.
\<close>

theorem conservation_counterexample:
  "\<not> conserved (get_Xs unconverged (Fin (10 ^ 15)) (Fin 1) (Fin (1 / 4)))"
proof -
  have g: "initial_guess (Fin (10 ^ 15)) (Fin 1) (Fin (1 / 4))
         = alpha_guess (Fin (10 ^ 15)) (Fin 1) (Fin (1 / 4))
             (baseline_guess (Fin (10 ^ 15)) (Fin 1) (Fin (1 / 4)))"
    using qC_1_1_le by (intro alpha_branch_taken) simp_all
  have lt: "(1 / 4 :: real) < 0.5"
    by simp
  have xp: "X (mu (Fin 1) (Fin (min 0.01 (1 / 4) * 10 ^ 15 / (1.66053907 / 10 ^ 24))) (Fin 1))
              (Fin 1) (Fin (10 ^ 15)) (Fin 1)
          = Fin (1 * (min 0.01 (1 / 4) * 10 ^ 15 / (1.66053907 / 10 ^ 24))
                 / (10 ^ 15 * (6.02214076 * 10 ^ 23)))"
    by (intro massFraction_of_mu) simp_all
  have xn: "X (mu (Fin 1) (Fin (2 * (0.5 - 1 / 4) * 10 ^ 15 / (1.66053907 / 10 ^ 24))) (Fin 1))
              (Fin 1) (Fin (10 ^ 15)) (Fin 1)
          = Fin (1 * (2 * (0.5 - 1 / 4) * 10 ^ 15 / (1.66053907 / 10 ^ 24))
                 / (10 ^ 15 * (6.02214076 * 10 ^ 23)))"
    by (intro massFraction_of_mu) simp_all
  obtain xa where xa: "X (mualpha
         (mu (Fin 1) (Fin (2 * (0.5 - 1 / 4) * 10 ^ 15 / (1.66053907 / 10 ^ 24))) (Fin 1))
         (mu (Fin 1) (Fin (min 0.01 (1 / 4) * 10 ^ 15 / (1.66053907 / 10 ^ 24))) (Fin 1)))
       (Fin 4) (Fin (10 ^ 15)) (Fin 1) = Fin xa" and big: "2 < xa"
  proof (rule alpha_fraction_large)
    show "quantumConcentration 1 1 \<le> min 0.01 (1 / 4) * 10 ^ 15 / (1.66053907 / 10 ^ 24)"
      using qC_1_1_le by simp
    show "quantumConcentration 1 1 \<le> 2 * (0.5 - 1 / 4) * 10 ^ 15 / (1.66053907 / 10 ^ 24)"
      using qC_1_1_le by simp
  qed
  show ?thesis
    unfolding get_Xs_unconverged g alpha_lt_Fin [OF lt] guess.simps xp xn xa
    using big by simp
qed

text \<open>
  C4, amended. For any input: if the potentials the root-finder returns have a mass
  residual (the first component of \<open>LS\<close>) of absolute value at most \<open>1e-6\<close>, then the
  three returned fractions are finite and sum to one within \<open>1e-6\<close>.
\<close>

theorem conservation_of_small_residual:
  assumes call: "fsolve (LS rho T yp)
             [mupguess (initial_guess rho T yp), munguess (initial_guess rho T yp),
              mualphaguess (initial_guess rho T yp)] = Inr values"
    and res: "LS rho T yp values = Inr (Fin r # rest)"
    and small: "\<bar>r\<bar> \<le> 1 / 10 ^ 6"
  shows "conserved (get_Xs fsolve rho T yp)"
proof -
  from res obtain a b c tl where v: "values = a # b # c # tl"
    and r: "Fin 1 - X a (Fin 1) rho T - X b (Fin 1) rho T - X c (Fin 4) rho T = Fin r"
    by (auto elim!: LS_InrD)
  from r obtain s xa where s: "Fin 1 - X a (Fin 1) rho T - X b (Fin 1) rho T = Fin s"
    and xa: "X c (Fin 4) rho T = Fin xa" and r1: "r = s - xa"
    by (rule minus_eq_FinD)
  from s obtain t xn where t: "Fin 1 - X a (Fin 1) rho T = Fin t"
    and xn: "X b (Fin 1) rho T = Fin xn" and r2: "s = t - xn"
    by (rule minus_eq_FinD)
  from t obtain u xp where "Fin 1 = Fin u"
    and xp: "X a (Fin 1) rho T = Fin xp" and r3: "t = u - xp"
    by (rule minus_eq_FinD)
  then have "xp + xn + xa - 1 = - r"
    using r1 r2 by simp
  then show ?thesis
    using call v xp xn xa small by (simp add: get_Xs_Inr)
qed

theorem conservation_of_small_residual_witness:
  "answers [mu (Fin 3) (Fin (10 ^ 11 * (6.02214076 * 10 ^ 23) / 4)) (Fin 1),
            mu (Fin 3) (Fin (10 ^ 11 * (6.02214076 * 10 ^ 23) / 4)) (Fin 1),
            mu (Fin 3) (Fin (10 ^ 11 * (6.02214076 * 10 ^ 23) / 8)) (Fin 4)]
     (LS (Fin (10 ^ 11)) (Fin 3) (Fin (1 / 4)))
     [mupguess (initial_guess (Fin (10 ^ 11)) (Fin 3) (Fin (1 / 4))),
      munguess (initial_guess (Fin (10 ^ 11)) (Fin 3) (Fin (1 / 4))),
      mualphaguess (initial_guess (Fin (10 ^ 11)) (Fin 3) (Fin (1 / 4)))]
   = Inr [mu (Fin 3) (Fin (10 ^ 11 * (6.02214076 * 10 ^ 23) / 4)) (Fin 1),
          mu (Fin 3) (Fin (10 ^ 11 * (6.02214076 * 10 ^ 23) / 4)) (Fin 1),
          mu (Fin 3) (Fin (10 ^ 11 * (6.02214076 * 10 ^ 23) / 8)) (Fin 4)]
   \<and> (\<exists>rest. LS (Fin (10 ^ 11)) (Fin 3) (Fin (1 / 4))
          [mu (Fin 3) (Fin (10 ^ 11 * (6.02214076 * 10 ^ 23) / 4)) (Fin 1),
           mu (Fin 3) (Fin (10 ^ 11 * (6.02214076 * 10 ^ 23) / 4)) (Fin 1),
           mu (Fin 3) (Fin (10 ^ 11 * (6.02214076 * 10 ^ 23) / 8)) (Fin 4)] = Inr (Fin 0 # rest))
   \<and> \<bar>0 :: real\<bar> \<le> 1 / 10 ^ 6
   \<and> conserved (get_Xs
        (answers [mu (Fin 3) (Fin (10 ^ 11 * (6.02214076 * 10 ^ 23) / 4)) (Fin 1),
                  mu (Fin 3) (Fin (10 ^ 11 * (6.02214076 * 10 ^ 23) / 4)) (Fin 1),
                  mu (Fin 3) (Fin (10 ^ 11 * (6.02214076 * 10 ^ 23) / 8)) (Fin 4)])
        (Fin (10 ^ 11)) (Fin 3) (Fin (1 / 4)))"
proof -
  define m1 where "m1 = mu (Fin 3) (Fin (10 ^ 11 * (6.02214076 * 10 ^ 23) / 4)) (Fin 1)"
  define m4 where "m4 = mu (Fin 3) (Fin (10 ^ 11 * (6.02214076 * 10 ^ 23) / 8)) (Fin 4)"
  have "X m1 (Fin 1) (Fin (10 ^ 11)) (Fin 3)
      = Fin (1 * (10 ^ 11 * (6.02214076 * 10 ^ 23) / 4) / (10 ^ 11 * (6.02214076 * 10 ^ 23)))"
    unfolding m1_def by (intro massFraction_of_mu) simp_all
  then have x1: "X m1 (Fin 1) (Fin (10 ^ 11)) (Fin 3) = Fin (1 / 4)"
    by simp
  have "X m4 (Fin 4) (Fin (10 ^ 11)) (Fin 3)
      = Fin (4 * (10 ^ 11 * (6.02214076 * 10 ^ 23) / 8) / (10 ^ 11 * (6.02214076 * 10 ^ 23)))"
    unfolding m4_def by (intro massFraction_of_mu) simp_all
  then have x4: "X m4 (Fin 4) (Fin (10 ^ 11)) (Fin 3) = Fin (1 / 2)"
    by simp
  have call: "answers [m1, m1, m4] (LS (Fin (10 ^ 11)) (Fin 3) (Fin (1 / 4)))
     [mupguess (initial_guess (Fin (10 ^ 11)) (Fin 3) (Fin (1 / 4))),
      munguess (initial_guess (Fin (10 ^ 11)) (Fin 3) (Fin (1 / 4))),
      mualphaguess (initial_guess (Fin (10 ^ 11)) (Fin 3) (Fin (1 / 4)))] = Inr [m1, m1, m4]"
    by (simp add: answers_def)
  have res: "LS (Fin (10 ^ 11)) (Fin 3) (Fin (1 / 4)) [m1, m1, m4]
           = Inr (Fin 0 # [Fin (1 / 4) - Fin (1 / 4) - Fin (1 / 2) / Fin 2, m4 - mualpha m1 m1])"
    unfolding LS_triple x1 x4 by simp
  have small: "\<bar>0 :: real\<bar> \<le> 1 / 10 ^ 6"
    by simp
  show ?thesis
    unfolding m1_def [symmetric] m4_def [symmetric]
    using call res small
      conservation_of_small_residual [where fsolve = "answers [m1, m1, m4]", OF call res small]
    by blast
qed

section \<open>Input validation (C5)\<close>




section \<open>Proton-neutron symmetry (C6)\<close>




end
